theory Spec2Isabelle
  imports Complex_Main "HOL-Library.Word"
begin

section \<open>Data model of src/ocr/tesseract.cpp\<close>

text \<open>
  A Leptonica \<open>Pix\<close>: width, height and depth are \<open>l_uint32\<close>, the two resolutions are
  \<open>l_int32\<close> (read with \<open>sint\<close>), \<open>pdata\<close> is the raster. Only these fields are read by
  the program.
\<close>

record pix =
  w :: "32 word"
  h :: "32 word"
  d :: "32 word"
  xres :: "32 word"
  yres :: "32 word"
  pdata :: "32 word list"

text \<open>A \<open>QImage\<close> as the capture subsystem hands it over, and a \<open>QPixmap\<close> around it.\<close>

record qimage =
  qwidth :: int
  qheight :: int
  dotsPerMeterX :: int
  dotsPerMeterY :: int

datatype qpixmap = NullPixmap | Pixmap qimage

text \<open>A \<open>QString\<close> is a sequence of UTF-16 code units.\<close>

type_synonym qchar = "16 word"
type_synonym qstring = "qchar list"

definition qs :: "string \<Rightarrow> qstring" where
  "qs s = map (\<lambda>c. of_nat (of_char c)) s"

text \<open>
  The code the program calls and that is not in tesseract.cpp is a parameter of the
  model; each entry is the outcome of the call, \<open>None\<close> standing for a null pointer:
  \<open>saveBmp\<close> is \<open>QImage::save(&buffer, "BMP")\<close>, the next three are Leptonica's
  functions of the same names, \<open>tesseractName\<close> is \<open>LanguageCodes::tesseract\<close>,
  \<open>engineInit\<close> is the result code of \<open>TessBaseAPI::Init\<close> for a data path and a
  language name, and \<open>engineText\<close> is \<open>QString(GetUTF8Text())\<close> for the image that was
  set.
\<close>

record extern =
  saveBmp :: "qimage \<Rightarrow> 8 word list"
  pixReadMemBmp :: "8 word list \<Rightarrow> pix option"
  pixConvertRGBToGray :: "pix \<Rightarrow> pix option"
  pixScale :: "pix \<Rightarrow> real \<Rightarrow> real \<Rightarrow> pix option"
  tesseractName :: "qstring \<Rightarrow> qstring"
  engineInit :: "qstring \<Rightarrow> qstring \<Rightarrow> int"
  engineText :: "pix option \<Rightarrow> qstring"

section \<open>Assertions\<close>

text \<open>
  Modelled from the spec: the macro \<open>SOFT_ASSERT(c, stmt)\<close> of debug.h, which is not
  among the sources, in its soft mode: when \<open>c\<close> fails it logs and runs \<open>stmt\<close>, which
  is a \<open>return\<close> at every use in tesseract.cpp. Each use is an \<open>if\<close>, or a \<open>case\<close> on a
  null pointer, whose failing branch is that return; the log is not part of the model.
\<close>

section \<open>getScale\<close>

text \<open>
  \<open>getScale\<close> (lines 63-91). The argument is the dereferenced pointer, \<open>None\<close> for
  \<open>nullptr\<close>; \<open>freeMem\<close> is the \<open>qint64\<close> that \<open>getFreeMemory()\<close> returns at the call.
  Doubles are exact reals here (\<open>getScaleIEEE\<close> below writes their rounding out). A
  division of a positive double by zero gives
  \<open>+inf\<close> in the program, and \<open>std::min\<close> of a finite value and \<open>+inf\<close> is the
  finite value: these are the branches on \<open>w = 0\<close>, \<open>h = 0\<close> and \<open>actualSize = 0\<close>.
  The product \<open>xRes * yRes\<close> is taken in 32 bits, and so is
  \<open>w * h * d / 8\<close> (unsigned).
\<close>

definition getScale :: "64 word \<Rightarrow> pix option \<Rightarrow> real" where
  "getScale freeMem source =
     (case source of
        None \<Rightarrow> - 1
      | Some s \<Rightarrow>
          let xRes = sint (xres s); yRes = sint (yres s) in
          if xres s * yres s = 0 then - 1
          else
            let preferredScale = max (500 / real_of_int (min xRes yRes)) 1 in
            if preferredScale \<le> 1 then - 1
            else
              let scaleX = (if w s = 0 then preferredScale
                            else min preferredScale (2147483647 / real (unat (w s))));
                  scaleY = (if h s = 0 then preferredScale
                            else min preferredScale (2147483647 / real (unat (h s))));
                  scale = min scaleX scaleY;
                  availableMemory = real_of_int (sint freeMem) * (95 / 100)
              in
              if availableMemory < 1 then - 1
              else
                let actualSize = (w s * h s * d s) div 8 in
                if actualSize = 0 then scale
                else min scale (availableMemory / real (unat actualSize)))"

section \<open>Buffers and external calls as state\<close>

text \<open>
  The live \<open>Pix\<close> buffers are a store from addresses to buffers; \<open>fresh\<close> is the next
  address an allocation returns; \<open>trace\<close> records, in order, every call into the
  third-party code.
\<close>

datatype event =
    EvReadMemBmp
  | EvConvertRGBToGray nat
  | EvScale nat real real
  | EvDestroy nat
  | EvInit
  | EvSetImage nat
  | EvGetUTF8Text
  | EvClear

record world =
  pixs :: "nat \<rightharpoonup> pix"
  fresh :: nat
  trace :: "event list"

definition logCall :: "event \<Rightarrow> world \<Rightarrow> world" where
  "logCall e wd = wd\<lparr>trace := trace wd @ [e]\<rparr>"

definition newPix :: "pix \<Rightarrow> world \<Rightarrow> nat option \<times> world" where
  "newPix p wd =
     (Some (fresh wd), wd\<lparr>pixs := (pixs wd)(fresh wd \<mapsto> p), fresh := Suc (fresh wd)\<rparr>)"

text \<open>A library call that returns a new buffer, or a null pointer.\<close>

definition returned :: "pix option \<Rightarrow> world \<Rightarrow> nat option \<times> world" where
  "returned r wd = (case r of None \<Rightarrow> (None, wd) | Some p \<Rightarrow> newPix p wd)"

definition pixDestroy :: "nat \<Rightarrow> world \<Rightarrow> world" where
  "pixDestroy a wd = (logCall (EvDestroy a) wd)\<lparr>pixs := (pixs wd)(a := None)\<rparr>"

section \<open>convertImage and prepareImage\<close>

text \<open>
  \<open>convertImage(const QImage &)\<close> (lines 42-50): the image is written as BMP into a
  memory buffer, which \<open>pixReadMemBmp\<close> decodes.
\<close>

definition convertImage :: "extern \<Rightarrow> qimage \<Rightarrow> world \<Rightarrow> nat option \<times> world" where
  "convertImage lib img wd =
     (let data = saveBmp lib img
      in returned (pixReadMemBmp lib data) (logCall EvReadMemBmp wd))"

text \<open>
  \<open>prepareImage\<close> (lines 93-121). The two assertions are the \<open>None\<close> branches: each
  returns a null pointer at once, the second one before \<open>pixDestroy(&pix)\<close>.
\<close>

definition prepareImage :: "extern \<Rightarrow> 64 word \<Rightarrow> qimage \<Rightarrow> world \<Rightarrow> nat option \<times> world" where
  "prepareImage lib freeMem img wd0 =
     (case convertImage lib img wd0 of
        (None, wd1) \<Rightarrow> (None, wd1)
      | (Some pix, wd1) \<Rightarrow>
          (case returned (case pixs wd1 pix of None \<Rightarrow> None
                          | Some p \<Rightarrow> pixConvertRGBToGray lib p)
                         (logCall (EvConvertRGBToGray pix) wd1) of
             (None, wd2) \<Rightarrow> (None, wd2)
           | (Some gray, wd2) \<Rightarrow>
               let wd3 = pixDestroy pix wd2;
                   scaleSource = gray;
                   scale = getScale freeMem (pixs wd3 scaleSource);
                   (scaled, wd4) =
                     (if scale > 1
                      then (case returned (case pixs wd3 scaleSource of None \<Rightarrow> None
                                           | Some g \<Rightarrow> pixScale lib g scale scale)
                                          (logCall (EvScale scaleSource scale scale) wd3) of
                              (None, wd) \<Rightarrow> (scaleSource, wd)
                            | (Some sc, wd) \<Rightarrow> (sc, wd))
                      else (scaleSource, wd3));
                   wd5 = (if scaled \<noteq> scaleSource then pixDestroy scaleSource wd4 else wd4)
               in (Some scaled, wd5)))"

definition cleanupImage :: "nat \<Rightarrow> world \<Rightarrow> world" where
  "cleanupImage img wd = pixDestroy img wd"

section \<open>The Tesseract session\<close>

record tessBaseAPI =
  eimage :: "nat option"

text \<open>
  The members \<open>engine_\<close> and \<open>error_\<close> of the class are the fields \<open>engine_m\<close> and
  \<open>error_m\<close> (a name cannot end in an underscore here).
\<close>

record tesseract =
  engine_m :: "tessBaseAPI option"
  error_m :: qstring

text \<open>
  \<open>QChar::isSpace\<close> and \<open>QString::trimmed\<close> as Qt documents them: the white space
  of Unicode (categories Zs, Zl, Zp, the controls 9 to 13, 0x85) is removed from both
  ends. \<open>QObject::tr\<close> returns its argument when no translation is installed.
\<close>

definition isSpace :: "qchar \<Rightarrow> bool" where
  "isSpace c = (c = 0x20 \<or> (0x09 \<le> c \<and> c \<le> 0x0d) \<or> c = 0x85 \<or> c = 0xa0
       \<or> c = 0x1680 \<or> (0x2000 \<le> c \<and> c \<le> 0x200a) \<or> c = 0x2028 \<or> c = 0x2029
       \<or> c = 0x202f \<or> c = 0x205f \<or> c = 0x3000)"

definition trimmed :: "qstring \<Rightarrow> qstring" where
  "trimmed s = rev (dropWhile isSpace (rev (dropWhile isSpace s)))"

definition tr :: "string \<Rightarrow> qstring" where
  "tr s = qs s"

fun isNull :: "qpixmap \<Rightarrow> bool" where
  "isNull NullPixmap = True"
| "isNull (Pixmap _) = False"

fun toImage :: "qpixmap \<Rightarrow> qimage" where
  "toImage NullPixmap = \<lparr>qwidth = 0, qheight = 0, dotsPerMeterX = 0, dotsPerMeterY = 0\<rparr>"
| "toImage (Pixmap i) = i"

text \<open>\<open>Tesseract::init\<close> (lines 138-156).\<close>

definition init ::
  "extern \<Rightarrow> qstring \<Rightarrow> qstring \<Rightarrow> tesseract \<times> world \<Rightarrow> tesseract \<times> world" where
  "init lib language tessdataPath st =
     (let (t, wd) = st in
      case engine_m t of
        Some _ \<Rightarrow> (t, wd)
      | None \<Rightarrow>
          let t1 = t\<lparr>engine_m := Some \<lparr>eimage = None\<rparr>\<rparr>;
              name = tesseractName lib language;
              result = engineInit lib tessdataPath name;
              wd1 = logCall EvInit wd
          in if result = 0 then (t1, wd1)
             else (t1\<lparr>error_m := tr ''init failed'', engine_m := None\<rparr>, wd1))"

text \<open>
  The constructor (lines 128-134). Both members are default-constructed: a null
  \<open>engine_\<close> and an empty \<open>error_\<close>.
\<close>

definition Tesseract :: "extern \<Rightarrow> qstring \<Rightarrow> qstring \<Rightarrow> world \<Rightarrow> tesseract \<times> world" where
  "Tesseract lib language tessdataPath wd =
     (let t0 = \<lparr>engine_m = None, error_m = []\<rparr> in
      if tessdataPath = [] then (t0, wd)
      else if language = [] then (t0, wd)
      else init lib language tessdataPath (t0, wd))"

definition error :: "tesseract \<Rightarrow> qstring" where
  "error t = error_m t"

definition isValid :: "tesseract \<Rightarrow> bool" where
  "isValid t = (engine_m t \<noteq> None)"

text \<open>
  \<open>Tesseract::recognize\<close> (lines 187-213). The result is the returned text, the
  session after the call and the world after the call.
\<close>

definition recognize ::
  "extern \<Rightarrow> 64 word \<Rightarrow> qpixmap \<Rightarrow> tesseract \<times> world \<Rightarrow> qstring \<times> tesseract \<times> world" where
  "recognize lib freeMem source st =
     (let (t, wd) = st in
      case engine_m t of
        None \<Rightarrow> ([], t, wd)
      | Some eng \<Rightarrow>
          if isNull source then ([], t, wd)
          else
            let t1 = t\<lparr>error_m := []\<rparr> in
            (case prepareImage lib freeMem (toImage source) wd of
              (None, wd1) \<Rightarrow> ([], t1, wd1)
            | (Some img, wd1) \<Rightarrow>
                let eng1 = eng\<lparr>eimage := Some img\<rparr>;
                    wd2 = logCall (EvSetImage img) wd1;
                    outText = engineText lib (case eimage eng1 of None \<Rightarrow> None
                                              | Some a \<Rightarrow> pixs wd2 a);
                    wd3 = logCall EvGetUTF8Text wd2;
                    eng2 = eng1\<lparr>eimage := None\<rparr>;
                    wd4 = logCall EvClear wd3;
                    wd5 = cleanupImage img wd4;
                    result = trimmed outText;
                    t2 = t1\<lparr>engine_m := Some eng2\<rparr>;
                    t3 = (if result = []
                          then t2\<lparr>error_m := tr ''Failed to recognize text or no text selected''\<rparr>
                          else t2)
                in (result, t3, wd5)))"

section \<open>Auxiliary definitions\<close>

text \<open>The local variables \<open>preferredScale\<close> and \<open>scale\<close> (before the memory bound) of getScale.\<close>

definition preferredScale :: "pix \<Rightarrow> real" where
  "preferredScale s = max (500 / real_of_int (min (sint (xres s)) (sint (yres s)))) 1"

definition geometryScale :: "pix \<Rightarrow> real" where
  "geometryScale s =
     min (if w s = 0 then preferredScale s
          else min (preferredScale s) (2147483647 / real (unat (w s))))
         (if h s = 0 then preferredScale s
          else min (preferredScale s) (2147483647 / real (unat (h s))))"

text \<open>The buffer behind the pointer that prepareImage returned, and its dimensions.\<close>

definition resultPix :: "nat option \<times> world \<Rightarrow> pix option" where
  "resultPix r = (case fst r of None \<Rightarrow> None | Some a \<Rightarrow> pixs (snd r) a)"

definition finalDims :: "nat option \<times> world \<Rightarrow> (32 word \<times> 32 word \<times> 32 word) option" where
  "finalDims r = map_option (\<lambda>p. (w p, h p, d p)) (resultPix r)"

text \<open>
  What Leptonica's \<open>pixScale\<close> promises about the buffer \<open>q\<close> it returns for the
  buffer \<open>s\<close> and the factors \<open>sx\<close>, \<open>sy\<close>: each dimension is the scaled one rounded
  to the nearest integer, and the depth is kept.
\<close>

definition scaledBy :: "pix \<Rightarrow> real \<Rightarrow> real \<Rightarrow> pix \<Rightarrow> bool" where
  "scaledBy s sx sy q =
     (int (unat (w q)) = \<lfloor>sx * real (unat (w s)) + 1 / 2\<rfloor>
      \<and> int (unat (h q)) = \<lfloor>sy * real (unat (h s)) + 1 / 2\<rfloor>
      \<and> d q = d s)"

text \<open>
  The buffer prepareImage hands back, as a function of the library's answers alone:
  the store and the addresses play no part in it.
\<close>

definition prepared :: "extern \<Rightarrow> 64 word \<Rightarrow> qimage \<Rightarrow> pix option" where
  "prepared lib freeMem img =
     (case pixReadMemBmp lib (saveBmp lib img) of
        None \<Rightarrow> None
      | Some p \<Rightarrow>
          (case pixConvertRGBToGray lib p of
             None \<Rightarrow> None
           | Some g \<Rightarrow>
               if 1 < getScale freeMem (Some g)
               then (case pixScale lib g (getScale freeMem (Some g)) (getScale freeMem (Some g)) of
                       None \<Rightarrow> Some g
                     | Some q \<Rightarrow> Some q)
               else Some g))"

section \<open>Sample inputs\<close>

text \<open>
  A 1000x800 capture at density 100, a library that decodes it, reduces it to 8 bits and
  scales as asked, and an engine that initialises and reads only white space.
\<close>

definition sampleImage :: qimage where
  "sampleImage = \<lparr>qwidth = 1000, qheight = 800, dotsPerMeterX = 3937, dotsPerMeterY = 3937\<rparr>"

definition samplePix :: pix where
  "samplePix = \<lparr>w = 1000, h = 800, d = 32, xres = 100, yres = 100, pdata = []\<rparr>"

definition sampleScale :: "pix \<Rightarrow> real \<Rightarrow> real \<Rightarrow> pix option" where
  "sampleScale p sx sy =
     Some (p\<lparr>w := word_of_int \<lfloor>sx * real (unat (w p)) + 1 / 2\<rfloor>,
             h := word_of_int \<lfloor>sy * real (unat (h p)) + 1 / 2\<rfloor>\<rparr>)"

definition sampleLib :: extern where
  "sampleLib =
     \<lparr>saveBmp = (\<lambda>i. []),
      pixReadMemBmp = (\<lambda>bs. Some samplePix),
      pixConvertRGBToGray = (\<lambda>p. Some (p\<lparr>d := 8\<rparr>)),
      pixScale = sampleScale,
      tesseractName = (\<lambda>l. l),
      engineInit = (\<lambda>path name. 0),
      engineText = (\<lambda>p. [0x20, 0x0a])\<rparr>"

definition emptyWorld :: world where
  "emptyWorld = \<lparr>pixs = Map.empty, fresh = 0, trace = []\<rparr>"

definition readySession :: tesseract where
  "readySession = \<lparr>engine_m = Some \<lparr>eimage = None\<rparr>, error_m = []\<rparr>"

text \<open>The same library, with a grayscale conversion that returns a null pointer.\<close>

definition grayFailLib :: extern where
  "grayFailLib = sampleLib\<lparr>pixConvertRGBToGray := (\<lambda>p. None)\<rparr>"

text \<open>A grayscale buffer without a horizontal density, and a library that produces it.\<close>

definition noDensityPix :: pix where
  "noDensityPix = samplePix\<lparr>d := 8, xres := 0\<rparr>"

definition noDensityLib :: extern where
  "noDensityLib = sampleLib\<lparr>pixConvertRGBToGray := (\<lambda>p. Some noDensityPix)\<rparr>"

text \<open>
  The session and the world after a first recognition, on the sample image, in which the
  engine read only white space.
\<close>

definition afterBlank :: "tesseract \<times> world" where
  "afterBlank = snd (recognize sampleLib 1000000000 (Pixmap sampleImage)
                       (readySession, emptyWorld))"

text \<open>The sample library with an engine that fails to initialise.\<close>

definition initFailLib :: extern where
  "initFailLib = sampleLib\<lparr>engineInit := (\<lambda>path name. - 1)\<rparr>"

section \<open>Doubles\<close>

text \<open>
  IEEE 754 binary64 as the program's \<open>double\<close>: a real is rounded to the nearest value
  with a significand of 53 bits, a tie going to the even significand. \<open>exponent x\<close> is
  the \<open>e\<close> with \<open>2^e \<le> x < 2^(e+1)\<close> for a positive \<open>x\<close>. Every double getScale meets is
  between \<open>2^-31\<close> and \<open>2^63\<close> in size, so neither overflow nor subnormal numbers
  are modelled.
\<close>

fun bitLength :: "nat \<Rightarrow> nat" where
  "bitLength n = (if n = 0 then 0 else Suc (bitLength (n div 2)))"

declare bitLength.simps [simp del]

definition exponent :: "real \<Rightarrow> int" where
  "exponent x =
     (if 1 \<le> x then int (bitLength (nat \<lfloor>x\<rfloor>)) - 1
      else - int (bitLength (nat (\<lceil>1 / x\<rceil> - 1))))"

definition pow2 :: "int \<Rightarrow> real" where
  "pow2 e = (if 0 \<le> e then 2 ^ nat e else 1 / 2 ^ nat (- e))"

definition roundHalfEven :: "real \<Rightarrow> int" where
  "roundHalfEven x =
     (let f = \<lfloor>x\<rfloor>; r = x - of_int f
      in if r < 1 / 2 then f
         else if 1 / 2 < r then f + 1
         else if even f then f else f + 1)"

definition toDouble :: "real \<Rightarrow> real" where
  "toDouble x =
     (if x = 0 then 0
      else let a = \<bar>x\<bar>; u = pow2 (exponent a - 52)
           in sgn x * (of_int (roundHalfEven (a / u)) * u))"

text \<open>Division and multiplication of doubles: the exact result, rounded.\<close>

definition ddiv :: "real \<Rightarrow> real \<Rightarrow> real" where
  "ddiv a b = toDouble (a / b)"

definition dmul :: "real \<Rightarrow> real \<Rightarrow> real" where
  "dmul a b = toDouble (a * b)"

text \<open>
  \<open>getScale\<close> (lines 63-91) once more, with the rounding of doubles written out: the
  three divisions, the product, the literal \<open>0.95\<close> and the conversion of the \<open>qint64\<close>
  are rounded; the conversions of the 32-bit integers, \<open>std::min\<close>, \<open>std::max\<close> and the
  comparisons are exact. The branches are those of \<open>getScale\<close> above.
\<close>

definition getScaleIEEE :: "64 word \<Rightarrow> pix option \<Rightarrow> real" where
  "getScaleIEEE freeMem source =
     (case source of
        None \<Rightarrow> - 1
      | Some s \<Rightarrow>
          let xRes = sint (xres s); yRes = sint (yres s) in
          if xres s * yres s = 0 then - 1
          else
            let preferredScale = max (ddiv 500 (real_of_int (min xRes yRes))) 1 in
            if preferredScale \<le> 1 then - 1
            else
              let scaleX = (if w s = 0 then preferredScale
                            else min preferredScale (ddiv 2147483647 (real (unat (w s)))));
                  scaleY = (if h s = 0 then preferredScale
                            else min preferredScale (ddiv 2147483647 (real (unat (h s)))));
                  scale = min scaleX scaleY;
                  availableMemory =
                    dmul (toDouble (real_of_int (sint freeMem))) (toDouble (95 / 100))
              in
              if availableMemory < 1 then - 1
              else
                let actualSize = (w s * h s * d s) div 8 in
                if actualSize = 0 then scale
                else min scale (ddiv availableMemory (real (unat actualSize))))"


section \<open>The decision to scale, and more samples\<close>

text \<open>
  The factor prepareImage scales by (line 108): the result of getScale when it is above
  1, and \<open>None\<close> when the buffer is left unscaled.
\<close>

definition scaleDecision :: "64 word \<Rightarrow> pix \<Rightarrow> real option" where
  "scaleDecision freeMem g =
     (let scale = getScale freeMem (Some g) in if scale > 1 then Some scale else None)"

definition dimsOf :: "pix \<Rightarrow> 32 word \<times> 32 word \<times> 32 word" where
  "dimsOf p = (w p, h p, d p)"

text \<open>
  Two more libraries: one whose \<open>pixScale\<close> returns a different raster of the same
  dimensions, one whose \<open>pixScale\<close> returns a null pointer.
\<close>

definition otherRasterLib :: extern where
  "otherRasterLib =
     sampleLib\<lparr>pixScale := (\<lambda>p sx sy. map_option (\<lambda>q. q\<lparr>pdata := [0]\<rparr>) (sampleScale p sx sy))\<rparr>"

definition scaleFailLib :: extern where
  "scaleFailLib = sampleLib\<lparr>pixScale := (\<lambda>p sx sy. None)\<rparr>"

text \<open>The sample library with an engine that reads " Hi there" and a line feed.\<close>

definition hiLib :: extern where
  "hiLib = sampleLib\<lparr>engineText := (\<lambda>p. qs '' Hi there'' @ [0x0a])\<rparr>"

section \<open>getScale: the decision\<close>

lemma getScale_unfold:
  "getScale m (Some s) =
     (if xres s * yres s = 0 then - 1
      else if preferredScale s \<le> 1 then - 1
      else if real_of_int (sint m) * (95 / 100) < 1 then - 1
      else if (w s * h s * d s) div 8 = 0 then geometryScale s
      else min (geometryScale s)
               (real_of_int (sint m) * (95 / 100) / real (unat ((w s * h s * d s) div 8))))"
  unfolding getScale_def preferredScale_def geometryScale_def Let_def option.case
  by (rule refl)

lemma geometryScale_le_preferred: "geometryScale s \<le> preferredScale s"
  unfolding geometryScale_def by (simp add: min_def)

lemma geometryScale_width: "real (unat (w s)) * geometryScale s \<le> 2147483647"
proof (cases "w s = 0")
  case True
  then show ?thesis by simp
next
  case False
  then have "0 < unat (w s)" by (simp add: unat_gt_0)
  then have pos: "0 < real (unat (w s))" by (simp only: of_nat_0_less_iff)
  have "geometryScale s \<le> 2147483647 / real (unat (w s))"
    unfolding geometryScale_def using False by (simp add: min_def)
  then have "geometryScale s * real (unat (w s)) \<le> 2147483647"
    using pos by (simp add: pos_le_divide_eq)
  then show ?thesis by (simp add: mult.commute)
qed

lemma geometryScale_height: "real (unat (h s)) * geometryScale s \<le> 2147483647"
proof (cases "h s = 0")
  case True
  then show ?thesis by simp
next
  case False
  then have "0 < unat (h s)" by (simp add: unat_gt_0)
  then have pos: "0 < real (unat (h s))" by (simp only: of_nat_0_less_iff)
  have "geometryScale s \<le> 2147483647 / real (unat (h s))"
    unfolding geometryScale_def using False by (simp add: min_def)
  then have "geometryScale s * real (unat (h s)) \<le> 2147483647"
    using pos by (simp add: pos_le_divide_eq)
  then show ?thesis by (simp add: mult.commute)
qed

lemma getScale_gt1:
  assumes "1 < getScale m (Some s)"
  shows "getScale m (Some s) \<le> geometryScale s \<and> 1 < preferredScale s"
  using assms unfolding getScale_unfold by (simp split: if_splits)

lemma getScale_unknown_density:
  "xres s * yres s = 0 \<Longrightarrow> getScale m (Some s) = - 1"
  by (simp add: getScale_unfold)

lemma getScale_scenario_A:
  assumes "w s = 1000" "h s = 800" "d s = 8" "xres s = 100" "yres s = 100"
    and mem: "4000000 \<le> real_of_int (sint m) * (95 / 100)"
  shows "getScale m (Some s) = 5"
proof -
  have P: "preferredScale s = 5"
    unfolding preferredScale_def using assms by simp
  have G: "geometryScale s = 5"
    unfolding geometryScale_def P using assms by simp
  have A: "(w s * h s * d s) div 8 = 800000"
    using assms by simp
  have U: "real (unat (800000 :: 32 word)) = 800000" by simp
  have M: "5 \<le> real_of_int (sint m) * (95 / 100) / 800000"
    using mem by simp
  show ?thesis
    unfolding getScale_unfold P G A U using assms mem M by simp
qed

text \<open>
  C6. A buffer whose smaller density is at least 500 gets the sentinel \<open>-1\<close>, whatever
  the free memory is. The theorem does not ask for a nonzero product of the densities:
  a product that is zero in 32 bits gives the sentinel as well.
\<close>

theorem getScale_high_density:
  "500 \<le> min (sint (xres s)) (sint (yres s)) \<Longrightarrow> getScale m (Some s) = - 1"
proof -
  assume a: "500 \<le> min (sint (xres s)) (sint (yres s))"
  let ?D = "real_of_int (min (sint (xres s)) (sint (yres s)))"
  from a have "500 \<le> ?D" by linarith
  then have "500 / ?D \<le> 1" by simp
  then have "preferredScale s \<le> 1" unfolding preferredScale_def by simp
  then show ?thesis by (simp add: getScale_unfold)
qed

theorem getScale_high_density_witness:
  "xres (samplePix\<lparr>xres := 600, yres := 500\<rparr>) * yres (samplePix\<lparr>xres := 600, yres := 500\<rparr>) \<noteq> 0
   \<and> 500 \<le> min (sint (xres (samplePix\<lparr>xres := 600, yres := 500\<rparr>)))
                (sint (yres (samplePix\<lparr>xres := 600, yres := 500\<rparr>)))
   \<and> getScale 1000000000 (Some (samplePix\<lparr>xres := 600, yres := 500\<rparr>)) = - 1"
  using getScale_high_density [of "samplePix\<lparr>xres := 600, yres := 500\<rparr>" 1000000000]
  by (simp add: samplePix_def)

text \<open>
  With exact arithmetic in place of doubles the clamp does what it is written for: a
  scale above 1 times the width or the height is at most \<open>2^31 - 1\<close>, and the scale is
  at most \<open>500 / min(xRes, yRes)\<close>.
\<close>

lemma getScale_bounds_exact:
  assumes "getScale m (Some s) = sc" and "1 < sc"
  shows "real (unat (w s)) * sc \<le> 2147483647 \<and> real (unat (h s)) * sc \<le> 2147483647
     \<and> sc \<le> 500 / real_of_int (min (sint (xres s)) (sint (yres s)))"
proof -
  from assms have g: "sc \<le> geometryScale s" and p: "1 < preferredScale s"
    using getScale_gt1 [of m s] by simp_all
  from p have pd: "preferredScale s = 500 / real_of_int (min (sint (xres s)) (sint (yres s)))"
    unfolding preferredScale_def by (simp add: max_def split: if_splits)
  have "real (unat (w s)) * sc \<le> real (unat (w s)) * geometryScale s"
    using g by (rule mult_left_mono) (rule of_nat_0_le_iff)
  then have W: "real (unat (w s)) * sc \<le> 2147483647"
    using geometryScale_width [of s] by linarith
  have "real (unat (h s)) * sc \<le> real (unat (h s)) * geometryScale s"
    using g by (rule mult_left_mono) (rule of_nat_0_le_iff)
  then have H: "real (unat (h s)) * sc \<le> 2147483647"
    using geometryScale_height [of s] by linarith
  have "sc \<le> preferredScale s"
    using g geometryScale_le_preferred [of s] by linarith
  with pd W H show ?thesis by simp
qed

section \<open>prepareImage, path by path\<close>

lemma convertImage_None:
  "pixReadMemBmp lib (saveBmp lib img) = None \<Longrightarrow>
   convertImage lib img wd = (None, logCall EvReadMemBmp wd)"
  by (simp add: convertImage_def returned_def)

lemma convertImage_Some:
  "pixReadMemBmp lib (saveBmp lib img) = Some p \<Longrightarrow>
   convertImage lib img wd =
     (Some (fresh wd),
      wd\<lparr>pixs := (pixs wd)(fresh wd \<mapsto> p), fresh := Suc (fresh wd),
         trace := trace wd @ [EvReadMemBmp]\<rparr>)"
  by (simp add: convertImage_def returned_def newPix_def logCall_def)

lemma prepareImage_convert_fails:
  "pixReadMemBmp lib (saveBmp lib img) = None \<Longrightarrow>
   prepareImage lib m img wd = (None, logCall EvReadMemBmp wd)"
  by (simp add: prepareImage_def convertImage_None)

lemma prepareImage_gray_fails:
  assumes "pixReadMemBmp lib (saveBmp lib img) = Some p"
    and "pixConvertRGBToGray lib p = None"
  shows "prepareImage lib m img wd =
     (None,
      wd\<lparr>pixs := (pixs wd)(fresh wd \<mapsto> p), fresh := Suc (fresh wd),
         trace := trace wd @ [EvReadMemBmp, EvConvertRGBToGray (fresh wd)]\<rparr>)"
  using assms
  by (simp add: prepareImage_def convertImage_Some returned_def logCall_def)

lemma prepareImage_unscaled:
  assumes "pixReadMemBmp lib (saveBmp lib img) = Some p"
    and "pixConvertRGBToGray lib p = Some g"
    and "\<not> 1 < getScale m (Some g)"
  shows "prepareImage lib m img wd =
     (Some (Suc (fresh wd)),
      wd\<lparr>pixs := (pixs wd)(fresh wd := None, Suc (fresh wd) \<mapsto> g),
         fresh := Suc (Suc (fresh wd)),
         trace := trace wd @ [EvReadMemBmp, EvConvertRGBToGray (fresh wd),
                              EvDestroy (fresh wd)]\<rparr>)"
  using assms
  by (simp add: prepareImage_def convertImage_Some returned_def newPix_def logCall_def
      pixDestroy_def fun_upd_twist Let_def)

lemma prepareImage_scale_fails:
  assumes "pixReadMemBmp lib (saveBmp lib img) = Some p"
    and "pixConvertRGBToGray lib p = Some g"
    and "1 < getScale m (Some g)"
    and "pixScale lib g (getScale m (Some g)) (getScale m (Some g)) = None"
  shows "prepareImage lib m img wd =
     (Some (Suc (fresh wd)),
      wd\<lparr>pixs := (pixs wd)(fresh wd := None, Suc (fresh wd) \<mapsto> g),
         fresh := Suc (Suc (fresh wd)),
         trace := trace wd @ [EvReadMemBmp, EvConvertRGBToGray (fresh wd),
                              EvDestroy (fresh wd),
                              EvScale (Suc (fresh wd)) (getScale m (Some g)) (getScale m (Some g))]\<rparr>)"
  using assms
  by (simp add: prepareImage_def convertImage_Some returned_def newPix_def logCall_def
      pixDestroy_def fun_upd_twist Let_def)

lemma prepareImage_scaled:
  assumes "pixReadMemBmp lib (saveBmp lib img) = Some p"
    and "pixConvertRGBToGray lib p = Some g"
    and "1 < getScale m (Some g)"
    and "pixScale lib g (getScale m (Some g)) (getScale m (Some g)) = Some q"
  shows "prepareImage lib m img wd =
     (Some (Suc (Suc (fresh wd))),
      wd\<lparr>pixs := (pixs wd)(fresh wd := None, Suc (fresh wd) := None,
                              Suc (Suc (fresh wd)) \<mapsto> q),
         fresh := Suc (Suc (Suc (fresh wd))),
         trace := trace wd @ [EvReadMemBmp, EvConvertRGBToGray (fresh wd),
                              EvDestroy (fresh wd),
                              EvScale (Suc (fresh wd)) (getScale m (Some g)) (getScale m (Some g)),
                              EvDestroy (Suc (fresh wd))]\<rparr>)"
  using assms
  by (simp add: prepareImage_def convertImage_Some returned_def newPix_def logCall_def
      pixDestroy_def fun_upd_twist Let_def)

lemma resultPix_prepareImage:
  "resultPix (prepareImage lib m img wd) = prepared lib m img"
proof (cases "pixReadMemBmp lib (saveBmp lib img)")
  case None
  then show ?thesis
    by (simp add: prepareImage_convert_fails resultPix_def prepared_def)
next
  case (Some p)
  note rd = this
  show ?thesis
  proof (cases "pixConvertRGBToGray lib p")
    case None
    with rd show ?thesis
      by (simp add: prepareImage_gray_fails resultPix_def prepared_def)
  next
    case (Some g)
    note gr = this
    show ?thesis
    proof (cases "1 < getScale m (Some g)")
      case False
      with rd gr show ?thesis
        by (simp add: prepareImage_unscaled resultPix_def prepared_def)
    next
      case True
      note sc = this
      show ?thesis
      proof (cases "pixScale lib g (getScale m (Some g)) (getScale m (Some g))")
        case None
        with rd gr sc show ?thesis
          by (simp add: prepareImage_scale_fails resultPix_def prepared_def)
      next
        case (Some q)
        with rd gr sc show ?thesis
          by (simp add: prepareImage_scaled resultPix_def prepared_def)
      qed
    qed
  qed
qed

lemma word32_eq_unat: "int (unat (x :: 32 word)) = n \<Longrightarrow> x = word_of_int n"
proof -
  assume "int (unat x) = n"
  then have "uint x = n" by simp
  then have "word_of_int (uint x) = (word_of_int n :: 32 word)" by (rule arg_cong)
  then show ?thesis by simp
qed

text \<open>
  C1. Scenario A: the grayscale buffer is 1000x800 at density 100 on both axes and the
  free memory is large enough for the memory bound not to bind. Then getScale returns
  exactly 5, prepareImage asks the library for a scaling by (5, 5) and returns that
  buffer, which is 5000x4000 at depth 8 when the library scales as it promises.
\<close>

theorem scenario_A:
  assumes rd: "pixReadMemBmp lib (saveBmp lib img) = Some p"
    and gr: "pixConvertRGBToGray lib p = Some g"
    and dims: "w g = 1000" "h g = 800" "d g = 8" "xres g = 100" "yres g = 100"
    and mem: "4000000 \<le> real_of_int (sint m) * (95 / 100)"
    and sc: "pixScale lib g 5 5 = Some q" and by5: "scaledBy g 5 5 q"
  shows "getScale m (Some g) = 5
     \<and> resultPix (prepareImage lib m img wd) = Some q
     \<and> finalDims (prepareImage lib m img wd) = Some (5000, 4000, 8)"
proof -
  have s5: "getScale m (Some g) = 5"
    using dims mem by (rule getScale_scenario_A)
  have r: "resultPix (prepareImage lib m img wd) = Some q"
    unfolding resultPix_prepareImage prepared_def using rd gr sc s5 by simp
  have "int (unat (w q)) = 5000"
    using by5 dims unfolding scaledBy_def by simp
  then have "w q = word_of_int 5000" by (rule word32_eq_unat)
  then have W: "w q = 5000" by simp
  have "int (unat (h q)) = 4000"
    using by5 dims unfolding scaledBy_def by simp
  then have "h q = word_of_int 4000" by (rule word32_eq_unat)
  then have H: "h q = 4000" by simp
  have D: "d q = 8"
    using by5 dims unfolding scaledBy_def by simp
  from s5 r W H D show ?thesis by (simp add: finalDims_def)
qed

lemma sampleScale5:
  "sampleScale (samplePix\<lparr>d := 8\<rparr>) 5 5 = Some (samplePix\<lparr>d := 8, w := 5000, h := 4000\<rparr>)"
  by (simp add: sampleScale_def samplePix_def)

theorem scenario_A_witness:
  "finalDims (prepareImage sampleLib 1000000000 sampleImage emptyWorld) = Some (5000, 4000, 8)
   \<and> getScale 1000000000 (Some (samplePix\<lparr>d := 8\<rparr>)) = 5"
proof -
  have rd: "pixReadMemBmp sampleLib (saveBmp sampleLib sampleImage) = Some samplePix"
    by (simp add: sampleLib_def)
  have gr: "pixConvertRGBToGray sampleLib samplePix = Some (samplePix\<lparr>d := 8\<rparr>)"
    by (simp add: sampleLib_def)
  have sc: "pixScale sampleLib (samplePix\<lparr>d := 8\<rparr>) 5 5
      = Some (samplePix\<lparr>d := 8, w := 5000, h := 4000\<rparr>)"
    by (simp add: sampleLib_def sampleScale5)
  have by5: "scaledBy (samplePix\<lparr>d := 8\<rparr>) 5 5 (samplePix\<lparr>d := 8, w := 5000, h := 4000\<rparr>)"
    by (simp add: scaledBy_def samplePix_def)
  have mem: "4000000 \<le> real_of_int (sint (1000000000 :: 64 word)) * (95 / 100)"
    by simp
  from scenario_A [OF rd gr _ _ _ _ _ mem sc by5, of emptyWorld]
  show ?thesis by (simp add: samplePix_def)
qed

text \<open>
  C8. A buffer whose two resolutions multiply to zero gets the sentinel \<open>-1\<close>; and when
  the grayscale buffer is such a buffer, prepareImage returns the pointer to it: the
  only calls it makes are the decoding, the grayscale conversion and the release of the
  decoded buffer, so no scaling is attempted.
\<close>

theorem unknown_density_not_scaled:
  assumes "xres g * yres g = 0"
  shows "getScale m (Some g) = - 1
     \<and> (pixReadMemBmp lib (saveBmp lib img) = Some p \<and> pixConvertRGBToGray lib p = Some g
        \<longrightarrow> fst (prepareImage lib m img wd) = Some (Suc (fresh wd))
          \<and> resultPix (prepareImage lib m img wd) = Some g
          \<and> trace (snd (prepareImage lib m img wd))
              = trace wd @ [EvReadMemBmp, EvConvertRGBToGray (fresh wd), EvDestroy (fresh wd)])"
proof -
  have s: "getScale m (Some g) = - 1"
    using assms by (rule getScale_unknown_density)
  then have n: "\<not> 1 < getScale m (Some g)" by simp
  show ?thesis
    using s by (auto simp: prepareImage_unscaled [OF _ _ n] resultPix_def)
qed

theorem unknown_density_not_scaled_witness:
  "xres noDensityPix * yres noDensityPix = 0
   \<and> getScale 1000000000 (Some noDensityPix) = - 1
   \<and> resultPix (prepareImage noDensityLib 1000000000 sampleImage emptyWorld) = Some noDensityPix
   \<and> trace (snd (prepareImage noDensityLib 1000000000 sampleImage emptyWorld))
       = [EvReadMemBmp, EvConvertRGBToGray 0, EvDestroy 0]"
proof -
  have z: "xres noDensityPix * yres noDensityPix = 0"
    by (simp add: noDensityPix_def samplePix_def)
  from unknown_density_not_scaled [OF z, of 1000000000 noDensityLib sampleImage samplePix
      emptyWorld] z
  show ?thesis by (simp add: noDensityLib_def sampleLib_def emptyWorld_def)
qed

text \<open>
  C3, at the input where the code breaks it: the image decodes, the grayscale
  conversion returns a null pointer. prepareImage returns null, and the decoded buffer
  at address 0 is still in the store: no \<open>pixDestroy\<close> was called on it.
\<close>

theorem prepareImage_gray_null_leaks:
  "fst (prepareImage grayFailLib 1000000000 sampleImage emptyWorld) = None
   \<and> pixs (snd (prepareImage grayFailLib 1000000000 sampleImage emptyWorld)) 0 = Some samplePix
   \<and> trace (snd (prepareImage grayFailLib 1000000000 sampleImage emptyWorld))
       = [EvReadMemBmp, EvConvertRGBToGray 0]"
proof -
  have rd: "pixReadMemBmp grayFailLib (saveBmp grayFailLib sampleImage) = Some samplePix"
    by (simp add: grayFailLib_def sampleLib_def)
  have gr: "pixConvertRGBToGray grayFailLib samplePix = None"
    by (simp add: grayFailLib_def sampleLib_def)
  show ?thesis
    by (simp add: prepareImage_gray_fails [OF rd gr] emptyWorld_def)
qed

text \<open>
  On every other path the buffers allocated during the pass and still live at its end
  are at most the returned one.
\<close>

lemma prepareImage_releases_otherwise:
  assumes "pixReadMemBmp lib (saveBmp lib img) = None
     \<or> (\<exists>p g. pixReadMemBmp lib (saveBmp lib img) = Some p \<and> pixConvertRGBToGray lib p = Some g)"
  shows "dom (pixs (snd (prepareImage lib m img wd))) - set_option (fst (prepareImage lib m img wd))
     \<subseteq> dom (pixs wd)"
proof (cases "pixReadMemBmp lib (saveBmp lib img)")
  case None
  then show ?thesis
    by (simp add: prepareImage_convert_fails logCall_def)
next
  case (Some p)
  with assms obtain g where gr: "pixConvertRGBToGray lib p = Some g" by auto
  note rd = Some
  show ?thesis
  proof (cases "1 < getScale m (Some g)")
    case False
    show ?thesis
      by (auto simp: prepareImage_unscaled [OF rd gr False] split: if_splits)
  next
    case True
    show ?thesis
    proof (cases "pixScale lib g (getScale m (Some g)) (getScale m (Some g))")
      case None
      show ?thesis
        by (auto simp: prepareImage_scale_fails [OF rd gr True None] split: if_splits)
    next
      case (Some q)
      show ?thesis
        by (auto simp: prepareImage_scaled [OF rd gr True Some] split: if_splits)
    qed
  qed
qed

text \<open>
  C9 as stated fails: the same image, prepared first with ample free memory and then,
  in the world the first call left, with 2 MB free, gives 5000x4000 and then 2375x1900.
\<close>

theorem prepareImage_twice_counterexample:
  "finalDims (prepareImage sampleLib 1000000000 sampleImage emptyWorld) = Some (5000, 4000, 8)
   \<and> finalDims (prepareImage sampleLib 2000000 sampleImage
         (snd (prepareImage sampleLib 1000000000 sampleImage emptyWorld))) = Some (2375, 1900, 8)
   \<and> finalDims (prepareImage sampleLib 2000000 sampleImage
         (snd (prepareImage sampleLib 1000000000 sampleImage emptyWorld)))
       \<noteq> finalDims (prepareImage sampleLib 1000000000 sampleImage emptyWorld)"
proof -
  have rd: "pixReadMemBmp sampleLib (saveBmp sampleLib sampleImage) = Some samplePix"
    by (simp add: sampleLib_def)
  have gr: "pixConvertRGBToGray sampleLib samplePix = Some (samplePix\<lparr>d := 8\<rparr>)"
    by (simp add: sampleLib_def)
  have s1: "getScale 1000000000 (Some (samplePix\<lparr>d := 8\<rparr>)) = 5"
    by (rule getScale_scenario_A) (simp_all add: samplePix_def)
  have P: "preferredScale (samplePix\<lparr>d := 8\<rparr>) = 5"
    by (simp add: preferredScale_def samplePix_def)
  have G: "geometryScale (samplePix\<lparr>d := 8\<rparr>) = 5"
    unfolding geometryScale_def P by (simp add: samplePix_def)
  have s2: "getScale 2000000 (Some (samplePix\<lparr>d := 8\<rparr>)) = 19 / 8"
    unfolding getScale_unfold P G by (simp add: samplePix_def)
  have sc1: "pixScale sampleLib (samplePix\<lparr>d := 8\<rparr>) 5 5
      = Some (samplePix\<lparr>d := 8, w := 5000, h := 4000\<rparr>)"
    by (simp add: sampleLib_def sampleScale5)
  have sc2: "pixScale sampleLib (samplePix\<lparr>d := 8\<rparr>) (19 / 8) (19 / 8)
      = Some (samplePix\<lparr>d := 8, w := 2375, h := 1900\<rparr>)"
    by (simp add: sampleLib_def sampleScale_def samplePix_def)
  have a: "prepared sampleLib 1000000000 sampleImage
      = Some (samplePix\<lparr>d := 8, w := 5000, h := 4000\<rparr>)"
    by (simp add: prepared_def rd gr s1 sc1)
  have b: "prepared sampleLib 2000000 sampleImage
      = Some (samplePix\<lparr>d := 8, w := 2375, h := 1900\<rparr>)"
    by (simp add: prepared_def rd gr s2 sc2)
  show ?thesis
    unfolding finalDims_def resultPix_prepareImage a b by (simp add: samplePix_def)
qed

section \<open>The session\<close>

lemma tr_not_empty: "s \<noteq> [] \<Longrightarrow> tr s \<noteq> []"
  by (simp add: tr_def qs_def)

lemma recognize_null_source:
  "isNull source \<Longrightarrow> recognize lib m source (t, wd) = ([], t, wd)"
  by (simp add: recognize_def split: option.splits)

lemma recognize_prepare_fails:
  assumes "engine_m t = Some e" and "\<not> isNull source"
    and "prepareImage lib m (toImage source) wd = (None, wd1)"
  shows "recognize lib m source (t, wd) = ([], t\<lparr>error_m := []\<rparr>, wd1)"
  using assms by (simp add: recognize_def)

lemma recognize_prepared:
  assumes "engine_m t = Some e" and "\<not> isNull source"
    and "prepareImage lib m (toImage source) wd = (Some a, wd1)"
  shows "recognize lib m source (t, wd) =
     (trimmed (engineText lib (pixs wd1 a)),
      t\<lparr>engine_m := Some (e\<lparr>eimage := None\<rparr>),
        error_m := (if trimmed (engineText lib (pixs wd1 a)) = []
                    then tr ''Failed to recognize text or no text selected'' else [])\<rparr>,
      wd1\<lparr>pixs := (pixs wd1)(a := None),
          trace := trace wd1 @ [EvSetImage a, EvGetUTF8Text, EvClear, EvDestroy a]\<rparr>)"
  using assms
  by (simp add: recognize_def Let_def logCall_def cleanupImage_def pixDestroy_def)

lemma trimmed_ends:
  "trimmed s = [] \<or> (\<not> isSpace (hd (trimmed s)) \<and> \<not> isSpace (last (trimmed s)))"
proof (cases "trimmed s = []")
  case True
  then show ?thesis by simp
next
  case False
  let ?a = "dropWhile isSpace s"
  let ?b = "dropWhile isSpace (rev ?a)"
  from False have b: "?b \<noteq> []" by (simp add: trimmed_def)
  then have hb: "\<not> isSpace (hd ?b)" by (rule hd_dropWhile)
  have a: "?a \<noteq> []"
  proof
    assume "?a = []"
    then have "?b = []" by (simp only: rev.simps dropWhile.simps)
    with b show False by (rule notE)
  qed
  then have ha: "\<not> isSpace (hd ?a)" by (rule hd_dropWhile)
  have l: "last (trimmed s) = hd ?b"
    using b by (simp add: trimmed_def last_rev)
  have "rev ?a = takeWhile isSpace (rev ?a) @ ?b" by simp
  then have "last (rev ?a) = last (takeWhile isSpace (rev ?a) @ ?b)" by simp
  also have "\<dots> = last ?b" using b by (rule last_appendR)
  finally have "last ?b = hd ?a" using a by (simp add: last_rev)
  moreover have "hd (trimmed s) = last ?b"
    using b by (simp add: trimmed_def hd_rev)
  ultimately have h: "\<not> isSpace (hd (trimmed s))" using ha by simp
  from h l hb show ?thesis by simp
qed

lemma trimmed_blank: "list_all isSpace s \<Longrightarrow> trimmed s = []"
proof -
  assume "list_all isSpace s"
  then have "dropWhile isSpace s = []" by (simp add: list_all_iff)
  then show ?thesis unfolding trimmed_def by (simp only: rev.simps dropWhile.simps)
qed


lemma sample_prepareImage:
  "prepareImage sampleLib 1000000000 sampleImage emptyWorld =
     (Some 2,
      \<lparr>pixs = [2 \<mapsto> samplePix\<lparr>d := 8, w := 5000, h := 4000\<rparr>], fresh = 3,
       trace = [EvReadMemBmp, EvConvertRGBToGray 0, EvDestroy 0, EvScale 1 5 5, EvDestroy 1]\<rparr>)"
proof -
  have rd: "pixReadMemBmp sampleLib (saveBmp sampleLib sampleImage) = Some samplePix"
    by (simp add: sampleLib_def)
  have gr: "pixConvertRGBToGray sampleLib samplePix = Some (samplePix\<lparr>d := 8\<rparr>)"
    by (simp add: sampleLib_def)
  have s1: "getScale 1000000000 (Some (samplePix\<lparr>d := 8\<rparr>)) = 5"
    by (rule getScale_scenario_A) (simp_all add: samplePix_def)
  have gt: "1 < getScale 1000000000 (Some (samplePix\<lparr>d := 8\<rparr>))"
    unfolding s1 by simp
  have sc: "pixScale sampleLib (samplePix\<lparr>d := 8\<rparr>)
       (getScale 1000000000 (Some (samplePix\<lparr>d := 8\<rparr>)))
       (getScale 1000000000 (Some (samplePix\<lparr>d := 8\<rparr>)))
      = Some (samplePix\<lparr>d := 8, w := 5000, h := 4000\<rparr>)"
    unfolding s1 by (simp add: sampleLib_def sampleScale5)
  show ?thesis
    unfolding prepareImage_scaled [OF rd gr gt sc] s1
    by (simp add: emptyWorld_def numeral_2_eq_2 numeral_3_eq_3)
qed

lemma afterBlank_session:
  "fst afterBlank = \<lparr>engine_m = Some \<lparr>eimage = None\<rparr>,
                     error_m = tr ''Failed to recognize text or no text selected''\<rparr>"
proof -
  have e: "engine_m readySession = Some \<lparr>eimage = None\<rparr>"
    by (simp add: readySession_def)
  have n: "\<not> isNull (Pixmap sampleImage)" by simp
  have p: "prepareImage sampleLib 1000000000 (toImage (Pixmap sampleImage)) emptyWorld =
     (Some 2,
      \<lparr>pixs = [2 \<mapsto> samplePix\<lparr>d := 8, w := 5000, h := 4000\<rparr>], fresh = 3,
       trace = [EvReadMemBmp, EvConvertRGBToGray 0, EvDestroy 0, EvScale 1 5 5, EvDestroy 1]\<rparr>)"
    using sample_prepareImage by simp
  have b: "trimmed (engineText sampleLib x) = []" for x
    by (rule trimmed_blank) (simp add: sampleLib_def isSpace_def)
  show ?thesis
    unfolding afterBlank_def recognize_prepared [OF e n p] b
    by (simp add: readySession_def)
qed

text \<open>
  C2 as stated fails: the grayscale conversion returns null, so prepareImage returns
  null; recognize returns the empty text and the error is empty.
\<close>

theorem recognize_prepare_null_counterexample:
  "fst (prepareImage grayFailLib 1000000000 (toImage (Pixmap sampleImage)) emptyWorld) = None
   \<and> fst (recognize grayFailLib 1000000000 (Pixmap sampleImage) (readySession, emptyWorld)) = []
   \<and> error (fst (snd (recognize grayFailLib 1000000000 (Pixmap sampleImage)
                          (readySession, emptyWorld)))) = []"
proof -
  have rd: "pixReadMemBmp grayFailLib (saveBmp grayFailLib sampleImage) = Some samplePix"
    by (simp add: grayFailLib_def sampleLib_def)
  have gr: "pixConvertRGBToGray grayFailLib samplePix = None"
    by (simp add: grayFailLib_def sampleLib_def)
  have e: "engine_m readySession = Some \<lparr>eimage = None\<rparr>"
    by (simp add: readySession_def)
  have n: "\<not> isNull (Pixmap sampleImage)" by simp
  have p: "prepareImage grayFailLib 1000000000 (toImage (Pixmap sampleImage)) emptyWorld =
     (None, emptyWorld\<lparr>pixs := (pixs emptyWorld)(fresh emptyWorld \<mapsto> samplePix),
              fresh := Suc (fresh emptyWorld),
              trace := trace emptyWorld @ [EvReadMemBmp, EvConvertRGBToGray (fresh emptyWorld)]\<rparr>)"
    using prepareImage_gray_fails [OF rd gr] by simp
  show ?thesis
    unfolding recognize_prepare_fails [OF e n p] p by (simp add: error_def)
qed

text \<open>
  C2, amended. When prepareImage returns null in a call of recognize (so the session has
  an engine and the pixmap is not null), recognize returns the empty text, the error is
  empty after the call, and no call reaches the engine: the trace is the one
  prepareImage left.
\<close>

theorem recognize_prepare_null:
  assumes "engine_m t = Some e" and "\<not> isNull source"
    and "fst (prepareImage lib m (toImage source) wd) = None"
  shows "fst (recognize lib m source (t, wd)) = []
     \<and> error (fst (snd (recognize lib m source (t, wd)))) = []
     \<and> isValid (fst (snd (recognize lib m source (t, wd))))
     \<and> snd (snd (recognize lib m source (t, wd))) = snd (prepareImage lib m (toImage source) wd)"
proof -
  from assms(3) have p: "prepareImage lib m (toImage source) wd
      = (None, snd (prepareImage lib m (toImage source) wd))"
    by (simp add: prod_eq_iff)
  show ?thesis
    unfolding recognize_prepare_fails [OF assms(1,2) p]
    using assms(1) by (simp add: error_def isValid_def)
qed

theorem recognize_prepare_null_witness:
  "engine_m readySession = Some \<lparr>eimage = None\<rparr> \<and> \<not> isNull (Pixmap sampleImage)
   \<and> fst (prepareImage grayFailLib 1000000000 (toImage (Pixmap sampleImage)) emptyWorld) = None
   \<and> fst (recognize grayFailLib 1000000000 (Pixmap sampleImage) (readySession, emptyWorld)) = []
   \<and> trace (snd (snd (recognize grayFailLib 1000000000 (Pixmap sampleImage)
                          (readySession, emptyWorld)))) = [EvReadMemBmp, EvConvertRGBToGray 0]"
proof -
  have rd: "pixReadMemBmp grayFailLib (saveBmp grayFailLib sampleImage) = Some samplePix"
    by (simp add: grayFailLib_def sampleLib_def)
  have gr: "pixConvertRGBToGray grayFailLib samplePix = None"
    by (simp add: grayFailLib_def sampleLib_def)
  have e: "engine_m readySession = Some \<lparr>eimage = None\<rparr>"
    by (simp add: readySession_def)
  have n: "\<not> isNull (Pixmap sampleImage)" by simp
  have p: "fst (prepareImage grayFailLib 1000000000 (toImage (Pixmap sampleImage)) emptyWorld)
      = None"
    using prepareImage_gray_fails [OF rd gr] by simp
  have t: "trace (snd (prepareImage grayFailLib 1000000000 (toImage (Pixmap sampleImage))
                         emptyWorld)) = [EvReadMemBmp, EvConvertRGBToGray 0]"
    using prepareImage_gray_fails [OF rd gr] by (simp add: emptyWorld_def)
  from recognize_prepare_null [OF e n p] e n p t show ?thesis by simp
qed


text \<open>
  C4 as stated fails: after a recognition that found no text, a call with a null pixmap
  leaves the error of that earlier call in place.
\<close>

theorem recognize_null_pixmap_counterexample:
  "fst (recognize sampleLib 1000000000 NullPixmap afterBlank) = []
   \<and> error (fst (snd (recognize sampleLib 1000000000 NullPixmap afterBlank)))
       = tr ''Failed to recognize text or no text selected''
   \<and> error (fst (snd (recognize sampleLib 1000000000 NullPixmap afterBlank))) \<noteq> []"
proof -
  have n: "isNull NullPixmap" by simp
  have a: "afterBlank = (fst afterBlank, snd afterBlank)" by simp
  have r: "recognize sampleLib 1000000000 NullPixmap afterBlank
      = ([], fst afterBlank, snd afterBlank)"
    using recognize_null_source [OF n, of sampleLib 1000000000 "fst afterBlank" "snd afterBlank"]
    by simp
  have ne: "tr ''Failed to recognize text or no text selected'' \<noteq> []"
    by (rule tr_not_empty) simp
  show ?thesis
    unfolding r using ne by (simp add: afterBlank_session error_def)
qed

text \<open>
  C4, amended. A call of recognize with a null pixmap returns the empty text and changes
  neither the session nor the world: no call reaches the engine or the library, and the
  error is the one the session had before the call (empty exactly when it was empty).
\<close>

theorem recognize_null_pixmap:
  assumes "isNull source"
  shows "fst (recognize lib m source (t, wd)) = []
     \<and> trace (snd (snd (recognize lib m source (t, wd)))) = trace wd
     \<and> snd (recognize lib m source (t, wd)) = (t, wd)
     \<and> error (fst (snd (recognize lib m source (t, wd)))) = error t"
  using assms by (simp add: recognize_null_source)

theorem recognize_null_pixmap_witness:
  "isNull NullPixmap
   \<and> fst (recognize sampleLib 1000000000 NullPixmap (readySession, emptyWorld)) = []
   \<and> trace (snd (snd (recognize sampleLib 1000000000 NullPixmap (readySession, emptyWorld)))) = []
   \<and> error (fst (snd (recognize sampleLib 1000000000 NullPixmap (readySession, emptyWorld)))) = []"
proof -
  have n: "isNull NullPixmap" by simp
  from recognize_null_pixmap [OF n, of sampleLib 1000000000 readySession emptyWorld] n
  show ?thesis by (simp add: readySession_def emptyWorld_def error_def)
qed

text \<open>
  C10. Constructed with an empty language or an empty tessdata path, the session has no
  engine (\<open>isValid\<close> is false), its error is the empty string and the engine was not
  called; when both are non-empty and the engine fails to initialise, the session has no
  engine either, and its error is "init failed".
\<close>

theorem constructor_guards:
  "(language = [] \<or> tessdataPath = []
      \<longrightarrow> \<not> isValid (fst (Tesseract lib language tessdataPath wd))
        \<and> error (fst (Tesseract lib language tessdataPath wd)) = []
        \<and> snd (Tesseract lib language tessdataPath wd) = wd)
   \<and> (language \<noteq> [] \<and> tessdataPath \<noteq> []
        \<and> engineInit lib tessdataPath (tesseractName lib language) \<noteq> 0
      \<longrightarrow> \<not> isValid (fst (Tesseract lib language tessdataPath wd))
        \<and> error (fst (Tesseract lib language tessdataPath wd)) = tr ''init failed''
        \<and> error (fst (Tesseract lib language tessdataPath wd)) \<noteq> [])"
proof -
  have ne: "tr ''init failed'' \<noteq> []" by (rule tr_not_empty) simp
  show ?thesis
    using ne by (simp add: Tesseract_def init_def isValid_def error_def Let_def)
qed

theorem constructor_guards_witness:
  "\<not> isValid (fst (Tesseract sampleLib [] (qs ''/usr/share/tessdata'') emptyWorld))
   \<and> error (fst (Tesseract sampleLib [] (qs ''/usr/share/tessdata'') emptyWorld)) = []
   \<and> \<not> isValid (fst (Tesseract sampleLib (qs ''eng'') [] emptyWorld))
   \<and> error (fst (Tesseract sampleLib (qs ''eng'') [] emptyWorld)) = []
   \<and> qs ''eng'' \<noteq> [] \<and> qs ''/usr/share/tessdata'' \<noteq> []
   \<and> engineInit initFailLib (qs ''/usr/share/tessdata'') (tesseractName initFailLib (qs ''eng'')) \<noteq> 0
   \<and> \<not> isValid (fst (Tesseract initFailLib (qs ''eng'') (qs ''/usr/share/tessdata'') emptyWorld))
   \<and> error (fst (Tesseract initFailLib (qs ''eng'') (qs ''/usr/share/tessdata'') emptyWorld))
       = tr ''init failed''"
proof -
  have a: "qs ''eng'' \<noteq> []" and b: "qs ''/usr/share/tessdata'' \<noteq> []"
    by (simp_all add: qs_def)
  have c: "engineInit initFailLib (qs ''/usr/share/tessdata'')
             (tesseractName initFailLib (qs ''eng'')) \<noteq> 0"
    by (simp add: initFailLib_def sampleLib_def)
  from constructor_guards [of "[]" "qs ''/usr/share/tessdata''" sampleLib emptyWorld]
    constructor_guards [of "qs ''eng''" "[]" sampleLib emptyWorld]
    constructor_guards [of "qs ''eng''" "qs ''/usr/share/tessdata''" initFailLib emptyWorld]
    a b c
  show ?thesis by simp
qed

section \<open>getScale in doubles\<close>

lemma toDouble_pos:
  "0 < x \<Longrightarrow> exponent x = e \<Longrightarrow> roundHalfEven (x / pow2 (e - 52)) = n
   \<Longrightarrow> toDouble x = of_int n * pow2 (e - 52)"
  by (simp add: toDouble_def Let_def)

lemma literal_095: "toDouble (95 / 100) = 4278419646001971 / 4503599627370496"
proof -
  have e: "exponent (95 / 100) = - 1" by (simp add: exponent_def bitLength.simps)
  have p: "pow2 (- 1 - 52) = 1 / 9007199254740992" by (simp add: pow2_def)
  have r: "roundHalfEven (95 / 100 / pow2 (- 1 - 52)) = 8556839292003942"
    unfolding p by (simp add: roundHalfEven_def Let_def)
  show ?thesis
    using toDouble_pos [OF _ e r] unfolding p by simp
qed







lemma preferred_sample: "ddiv 500 100 = 5"
proof -
  have e: "exponent (500 / 100) = 2" by (simp add: exponent_def bitLength.simps)
  have p: "pow2 (2 - 52) = 1 / 1125899906842624" by (simp add: pow2_def)
  have r: "roundHalfEven (500 / 100 / pow2 (2 - 52)) = 5629499534213120"
    unfolding p by (simp add: roundHalfEven_def Let_def)
  show ?thesis
    unfolding ddiv_def using toDouble_pos [OF _ e r] unfolding p by simp
qed

lemma maxScaleX_sample: "ddiv 2147483647 1000 = 144115188008747 / 67108864"
proof -
  have e: "exponent (2147483647 / 1000) = 21" by (simp add: exponent_def bitLength.simps)
  have p: "pow2 (21 - 52) = 1 / 2147483648" by (simp add: pow2_def)
  have r: "roundHalfEven (2147483647 / 1000 / pow2 (21 - 52)) = 4611686016279904"
    unfolding p by (simp add: roundHalfEven_def Let_def)
  show ?thesis
    unfolding ddiv_def using toDouble_pos [OF _ e r] unfolding p by simp
qed

lemma maxScaleY_sample: "ddiv 2147483647 800 = 720575940043735 / 268435456"
proof -
  have e: "exponent (2147483647 / 800) = 21" by (simp add: exponent_def bitLength.simps)
  have p: "pow2 (21 - 52) = 1 / 2147483648" by (simp add: pow2_def)
  have r: "roundHalfEven (2147483647 / 800 / pow2 (21 - 52)) = 5764607520349880"
    unfolding p by (simp add: roundHalfEven_def Let_def)
  show ?thesis
    unfolding ddiv_def using toDouble_pos [OF _ e r] unfolding p by simp
qed

lemma freeMem_1e9: "toDouble 1000000000 = 1000000000"
proof -
  have e: "exponent 1000000000 = 29" by (simp add: exponent_def bitLength.simps)
  have p: "pow2 (29 - 52) = 1 / 8388608" by (simp add: pow2_def)
  have r: "roundHalfEven (1000000000 / pow2 (29 - 52)) = 8388608000000000"
    unfolding p by (simp add: roundHalfEven_def Let_def)
  show ?thesis
    using toDouble_pos [OF _ e r] unfolding p by simp
qed

lemma availableMemory_1e9: "dmul 1000000000 (4278419646001971 / 4503599627370496) = 950000000"
proof -
  have e: "exponent (1000000000 * (4278419646001971 / 4503599627370496)) = 29" by (simp add: exponent_def bitLength.simps)
  have p: "pow2 (29 - 52) = 1 / 8388608" by (simp add: pow2_def)
  have r: "roundHalfEven (1000000000 * (4278419646001971 / 4503599627370496) / pow2 (29 - 52)) = 7969177600000000"
    unfolding p by (simp add: roundHalfEven_def Let_def)
  show ?thesis
    unfolding dmul_def using toDouble_pos [OF _ e r] unfolding p by simp
qed

lemma maxScaleMemory_sample: "ddiv 950000000 800000 = 2375 / 2"
proof -
  have e: "exponent (950000000 / 800000) = 10" by (simp add: exponent_def bitLength.simps)
  have p: "pow2 (10 - 52) = 1 / 4398046511104" by (simp add: pow2_def)
  have r: "roundHalfEven (950000000 / 800000 / pow2 (10 - 52)) = 5222680231936000"
    unfolding p by (simp add: roundHalfEven_def Let_def)
  show ?thesis
    unfolding ddiv_def using toDouble_pos [OF _ e r] unfolding p by simp
qed

text \<open>
  At the sample of scenario A the rounding changes nothing: the doubles give 5 as the
  exact arithmetic does.
\<close>

lemma getScaleIEEE_scenario_A: "getScaleIEEE 1000000000 (Some (samplePix\<lparr>d := 8\<rparr>)) = 5"
proof -
  have a: "dmul (toDouble (real_of_int (sint (1000000000 :: 64 word)))) (toDouble (95 / 100))
      = 950000000"
    unfolding literal_095 by (simp add: freeMem_1e9 availableMemory_1e9)
  show ?thesis
    unfolding getScaleIEEE_def Let_def a
    by (simp add: samplePix_def preferred_sample maxScaleX_sample maxScaleY_sample
        maxScaleMemory_sample)
qed


section \<open>prepareImage called twice\<close>

lemma finalDims_prepareImage:
  "finalDims (prepareImage lib m img wd) = map_option dimsOf (prepared lib m img)"
  unfolding finalDims_def resultPix_prepareImage dimsOf_def by (rule refl)

lemma prepared_decision:
  assumes "pixReadMemBmp lib (saveBmp lib img) = Some p"
    and "pixConvertRGBToGray lib p = Some g"
  shows "prepared lib m img =
     (case scaleDecision m g of
        None \<Rightarrow> Some g
      | Some s \<Rightarrow> (case pixScale lib g s s of None \<Rightarrow> Some g | Some q \<Rightarrow> Some q))"
  using assms by (simp add: prepared_def scaleDecision_def Let_def)

text \<open>
  A library failure on one pass only also changes the result: at the same free-memory
  reading, \<open>pixScale\<close> succeeds on the first pass and returns null on the second.
\<close>

lemma prepareImage_twice_scale_fails_once:
  "finalDims (prepareImage sampleLib 1000000000 sampleImage emptyWorld) = Some (5000, 4000, 8)
   \<and> finalDims (prepareImage scaleFailLib 1000000000 sampleImage
         (snd (prepareImage sampleLib 1000000000 sampleImage emptyWorld))) = Some (1000, 800, 8)"
proof -
  have rd: "pixReadMemBmp sampleLib (saveBmp sampleLib sampleImage) = Some samplePix"
    by (simp add: sampleLib_def)
  have gr: "pixConvertRGBToGray sampleLib samplePix = Some (samplePix\<lparr>d := 8\<rparr>)"
    by (simp add: sampleLib_def)
  have rd': "pixReadMemBmp scaleFailLib (saveBmp scaleFailLib sampleImage) = Some samplePix"
    by (simp add: scaleFailLib_def sampleLib_def)
  have gr': "pixConvertRGBToGray scaleFailLib samplePix = Some (samplePix\<lparr>d := 8\<rparr>)"
    by (simp add: scaleFailLib_def sampleLib_def)
  have s1: "getScale 1000000000 (Some (samplePix\<lparr>d := 8\<rparr>)) = 5"
    by (rule getScale_scenario_A) (simp_all add: samplePix_def)
  have dc: "scaleDecision 1000000000 (samplePix\<lparr>d := 8\<rparr>) = Some 5"
    by (simp add: scaleDecision_def s1)
  have sc1: "pixScale sampleLib (samplePix\<lparr>d := 8\<rparr>) 5 5
      = Some (samplePix\<lparr>d := 8, w := 5000, h := 4000\<rparr>)"
    by (simp add: sampleLib_def sampleScale5)
  have r1: "map_option dimsOf (case pixScale sampleLib (samplePix\<lparr>d := 8\<rparr>) 5 5 of
                                None \<Rightarrow> Some (samplePix\<lparr>d := 8\<rparr>) | Some q \<Rightarrow> Some q)
      = Some (5000, 4000, 8)"
    by (simp add: sc1 dimsOf_def)
  have r2: "map_option dimsOf (case pixScale scaleFailLib (samplePix\<lparr>d := 8\<rparr>) 5 5 of
                                None \<Rightarrow> Some (samplePix\<lparr>d := 8\<rparr>) | Some q \<Rightarrow> Some q)
      = Some (1000, 800, 8)"
    by (simp add: scaleFailLib_def dimsOf_def samplePix_def)
  show ?thesis
    unfolding finalDims_prepareImage prepared_decision [OF rd gr] prepared_decision [OF rd' gr'] dc
    by (simp add: r1 r2)
qed

text \<open>
  C9, amended. Two successive calls on the same image, the second in the world the
  first one left, return buffers of the same width, height and depth provided that
  (a) the library answers alike on both passes: the decoding and the grayscale
  conversion return the same buffer or null, and \<open>pixScale\<close> returns null on both or
  buffers of the same dimensions on both; and (b) the two free-memory readings lead
  getScale to the same decision on the grayscale buffer: no scaling on both (whatever
  the two values at most 1 are), or the same factor above 1 on both.
\<close>

theorem prepareImage_twice:
  assumes dec: "pixReadMemBmp lib2 (saveBmp lib2 img) = pixReadMemBmp lib1 (saveBmp lib1 img)"
    and gray: "\<forall>p. pixReadMemBmp lib1 (saveBmp lib1 img) = Some p
                 \<longrightarrow> pixConvertRGBToGray lib2 p = pixConvertRGBToGray lib1 p"
    and scale: "\<forall>p g. pixReadMemBmp lib1 (saveBmp lib1 img) = Some p
                 \<longrightarrow> pixConvertRGBToGray lib1 p = Some g
                 \<longrightarrow> scaleDecision m2 g = scaleDecision m1 g
                     \<and> (\<forall>s. scaleDecision m1 g = Some s
                          \<longrightarrow> map_option dimsOf (pixScale lib2 g s s)
                              = map_option dimsOf (pixScale lib1 g s s))"
  shows "finalDims (prepareImage lib2 m2 img (snd (prepareImage lib1 m1 img wd)))
     = finalDims (prepareImage lib1 m1 img wd)"
proof (cases "pixReadMemBmp lib1 (saveBmp lib1 img)")
  case None
  with dec show ?thesis
    unfolding finalDims_prepareImage by (simp add: prepared_def)
next
  case (Some p)
  note rd1 = Some
  from dec rd1 have rd2: "pixReadMemBmp lib2 (saveBmp lib2 img) = Some p" by simp
  show ?thesis
  proof (cases "pixConvertRGBToGray lib1 p")
    case None
    with gray rd1 have "pixConvertRGBToGray lib2 p = None" by simp
    with None rd1 rd2 show ?thesis
      unfolding finalDims_prepareImage by (simp add: prepared_def)
  next
    case (Some g)
    note gr1 = Some
    from gray rd1 gr1 have gr2: "pixConvertRGBToGray lib2 p = Some g" by simp
    from scale rd1 gr1 have d: "scaleDecision m2 g = scaleDecision m1 g"
      and q: "\<forall>s. scaleDecision m1 g = Some s
                \<longrightarrow> map_option dimsOf (pixScale lib2 g s s) = map_option dimsOf (pixScale lib1 g s s)"
      by blast+
    show ?thesis
    proof (cases "scaleDecision m1 g")
      case None
      then show ?thesis
        unfolding finalDims_prepareImage prepared_decision [OF rd1 gr1]
          prepared_decision [OF rd2 gr2] d
        by simp
    next
      case (Some s)
      with q have "map_option dimsOf (pixScale lib2 g s s) = map_option dimsOf (pixScale lib1 g s s)"
        by blast
      with Some show ?thesis
        unfolding finalDims_prepareImage prepared_decision [OF rd1 gr1]
          prepared_decision [OF rd2 gr2] d
        by (auto split: option.splits)
    qed
  qed
qed

theorem prepareImage_twice_witness:
  "finalDims (prepareImage otherRasterLib 2000000000 sampleImage
       (snd (prepareImage sampleLib 1000000000 sampleImage emptyWorld)))
     = finalDims (prepareImage sampleLib 1000000000 sampleImage emptyWorld)
   \<and> pixScale otherRasterLib (samplePix\<lparr>d := 8\<rparr>) 5 5 \<noteq> pixScale sampleLib (samplePix\<lparr>d := 8\<rparr>) 5 5
   \<and> finalDims (prepareImage sampleLib 100000 sampleImage
       (snd (prepareImage sampleLib 0 sampleImage emptyWorld)))
     = finalDims (prepareImage sampleLib 0 sampleImage emptyWorld)
   \<and> getScale 0 (Some (samplePix\<lparr>d := 8\<rparr>)) = - 1
   \<and> getScale 100000 (Some (samplePix\<lparr>d := 8\<rparr>)) = 19 / 160"
proof -
  let ?g = "samplePix\<lparr>d := 8\<rparr>"
  have P: "preferredScale ?g = 5"
    by (simp add: preferredScale_def samplePix_def)
  have G: "geometryScale ?g = 5"
    unfolding geometryScale_def P by (simp add: samplePix_def)
  have s1: "getScale 1000000000 (Some ?g) = 5"
    by (rule getScale_scenario_A) (simp_all add: samplePix_def)
  have s2: "getScale 2000000000 (Some ?g) = 5"
    by (rule getScale_scenario_A) (simp_all add: samplePix_def)
  have s3: "getScale 0 (Some ?g) = - 1"
    by (simp add: getScale_unfold)
  have s4: "getScale 100000 (Some ?g) = 19 / 160"
    unfolding getScale_unfold P G by (simp add: samplePix_def)
  have d12: "scaleDecision 2000000000 ?g = scaleDecision 1000000000 ?g"
    and d1: "scaleDecision 1000000000 ?g = Some 5"
    by (simp_all add: scaleDecision_def s1 s2)
  have d34: "scaleDecision 100000 ?g = scaleDecision 0 ?g"
    and d3: "scaleDecision 0 ?g = None"
    by (simp_all add: scaleDecision_def s3 s4)
  have ne: "pixScale otherRasterLib ?g 5 5 \<noteq> pixScale sampleLib ?g 5 5"
    by (simp add: otherRasterLib_def sampleLib_def sampleScale_def samplePix_def)
  have dm: "map_option dimsOf (pixScale otherRasterLib ?g 5 5)
      = map_option dimsOf (pixScale sampleLib ?g 5 5)"
    by (simp add: otherRasterLib_def sampleLib_def sampleScale5 dimsOf_def)
  have h1: "pixReadMemBmp otherRasterLib (saveBmp otherRasterLib sampleImage)
      = pixReadMemBmp sampleLib (saveBmp sampleLib sampleImage)"
    by (simp add: otherRasterLib_def)
  have h2: "\<forall>p. pixReadMemBmp sampleLib (saveBmp sampleLib sampleImage) = Some p
      \<longrightarrow> pixConvertRGBToGray otherRasterLib p = pixConvertRGBToGray sampleLib p"
    by (simp add: otherRasterLib_def)
  have h3: "\<forall>p g. pixReadMemBmp sampleLib (saveBmp sampleLib sampleImage) = Some p
      \<longrightarrow> pixConvertRGBToGray sampleLib p = Some g
      \<longrightarrow> scaleDecision 2000000000 g = scaleDecision 1000000000 g
          \<and> (\<forall>s. scaleDecision 1000000000 g = Some s
               \<longrightarrow> map_option dimsOf (pixScale otherRasterLib g s s)
                   = map_option dimsOf (pixScale sampleLib g s s))"
  proof (intro allI impI)
    fix p g
    assume "pixReadMemBmp sampleLib (saveBmp sampleLib sampleImage) = Some p"
      and "pixConvertRGBToGray sampleLib p = Some g"
    then have g: "g = ?g" by (auto simp: sampleLib_def)
    show "scaleDecision 2000000000 g = scaleDecision 1000000000 g
        \<and> (\<forall>s. scaleDecision 1000000000 g = Some s
             \<longrightarrow> map_option dimsOf (pixScale otherRasterLib g s s)
                 = map_option dimsOf (pixScale sampleLib g s s))"
      unfolding g d12 d1 using dm by auto
  qed
  have k3: "\<forall>p g. pixReadMemBmp sampleLib (saveBmp sampleLib sampleImage) = Some p
      \<longrightarrow> pixConvertRGBToGray sampleLib p = Some g
      \<longrightarrow> scaleDecision 100000 g = scaleDecision 0 g
          \<and> (\<forall>s. scaleDecision 0 g = Some s
               \<longrightarrow> map_option dimsOf (pixScale sampleLib g s s)
                   = map_option dimsOf (pixScale sampleLib g s s))"
  proof (intro allI impI)
    fix p g
    assume "pixReadMemBmp sampleLib (saveBmp sampleLib sampleImage) = Some p"
      and "pixConvertRGBToGray sampleLib p = Some g"
    then have g: "g = ?g" by (auto simp: sampleLib_def)
    show "scaleDecision 100000 g = scaleDecision 0 g
        \<and> (\<forall>s. scaleDecision 0 g = Some s
             \<longrightarrow> map_option dimsOf (pixScale sampleLib g s s)
                 = map_option dimsOf (pixScale sampleLib g s s))"
      unfolding g d34 d3 by simp
  qed
  have a: "finalDims (prepareImage otherRasterLib 2000000000 sampleImage
       (snd (prepareImage sampleLib 1000000000 sampleImage emptyWorld)))
     = finalDims (prepareImage sampleLib 1000000000 sampleImage emptyWorld)"
    using h1 h2 h3 by (rule prepareImage_twice)
  have b: "finalDims (prepareImage sampleLib 100000 sampleImage
       (snd (prepareImage sampleLib 0 sampleImage emptyWorld)))
     = finalDims (prepareImage sampleLib 0 sampleImage emptyWorld)"
    using refl _ k3 by (rule prepareImage_twice) simp
  from a ne b s3 s4 show ?thesis by blast
qed

section \<open>The text recognize returns\<close>

lemma trimmed_decomp:
  "s = takeWhile isSpace s @ trimmed s @ rev (takeWhile isSpace (rev (dropWhile isSpace s)))"
proof -
  let ?a = "dropWhile isSpace s"
  have "rev (takeWhile isSpace (rev ?a) @ dropWhile isSpace (rev ?a))
      = rev (dropWhile isSpace (rev ?a)) @ rev (takeWhile isSpace (rev ?a))"
    by (rule rev_append)
  moreover have "takeWhile isSpace (rev ?a) @ dropWhile isSpace (rev ?a) = rev ?a"
    by (rule takeWhile_dropWhile_id)
  ultimately have "rev (rev ?a)
      = rev (dropWhile isSpace (rev ?a)) @ rev (takeWhile isSpace (rev ?a))"
    by (simp only:)
  then have a: "?a = trimmed s @ rev (takeWhile isSpace (rev ?a))"
    by (simp only: rev_rev_ident trimmed_def)
  have "s = takeWhile isSpace s @ ?a" by simp
  with a show ?thesis by simp
qed

lemma trimmed_between_spaces:
  "\<exists>pre post. s = pre @ trimmed s @ post \<and> list_all isSpace pre \<and> list_all isSpace post"
proof (intro exI conjI)
  show "s = takeWhile isSpace s @ trimmed s @ rev (takeWhile isSpace (rev (dropWhile isSpace s)))"
    by (rule trimmed_decomp)
  show "list_all isSpace (takeWhile isSpace s)"
    by (auto simp: list_all_iff dest: set_takeWhileD)
  show "list_all isSpace (rev (takeWhile isSpace (rev (dropWhile isSpace s))))"
    by (auto simp: list_all_iff dest: set_takeWhileD)
qed

lemma hi_text: "trimmed (qs '' Hi there'' @ [0x0a]) = qs ''Hi there''"
  by (simp add: trimmed_def qs_def isSpace_def)


lemma prepareImage_engineText:
  "prepareImage (lib\<lparr>engineText := f\<rparr>) m img wd = prepareImage lib m img wd"
  by (simp add: prepareImage_def convertImage_def
      cong: option.case_cong prod.case_cong if_cong)

text \<open>
  C5. On a session with an engine, for a pixmap that is not null and whose preparation
  returns a buffer: the text returned is the engine's text without the white space at
  its two ends, that is, the engine's text is white space, then the text returned, then
  white space, and the text returned neither starts nor ends with white space; the
  error is "Failed to recognize text or no text selected" exactly when the text returned
  is empty, and is empty otherwise; an engine text of white space alone gives the empty
  text with that error.
\<close>

theorem recognize_trims_and_reports:
  assumes "engine_m t = Some e" and "\<not> isNull source"
    and "prepareImage lib m (toImage source) wd = (Some a, wd1)"
    and "recognize lib m source (t, wd) = (result, t', wd')"
  shows "result = trimmed (engineText lib (pixs wd1 a))
     \<and> (\<exists>pre post. engineText lib (pixs wd1 a) = pre @ result @ post
            \<and> list_all isSpace pre \<and> list_all isSpace post)
     \<and> (result = [] \<or> (\<not> isSpace (hd result) \<and> \<not> isSpace (last result)))
     \<and> (error t' = tr ''Failed to recognize text or no text selected'' \<longleftrightarrow> result = [])
     \<and> (result \<noteq> [] \<longrightarrow> error t' = [])
     \<and> (list_all isSpace (engineText lib (pixs wd1 a))
          \<longrightarrow> result = [] \<and> error t' = tr ''Failed to recognize text or no text selected'')"
proof -
  let ?msg = "tr ''Failed to recognize text or no text selected''"
  have ne: "?msg \<noteq> []" by (rule tr_not_empty) simp
  from assms(4) have r: "result = trimmed (engineText lib (pixs wd1 a))"
    and t': "t' = t\<lparr>engine_m := Some (e\<lparr>eimage := None\<rparr>),
                    error_m := (if trimmed (engineText lib (pixs wd1 a)) = [] then ?msg else [])\<rparr>"
    unfolding recognize_prepared [OF assms(1-3)] by auto
  have e: "error t' = (if result = [] then ?msg else [])"
    unfolding t' r by (simp add: error_def)
  have between: "\<exists>pre post. engineText lib (pixs wd1 a) = pre @ result @ post
      \<and> list_all isSpace pre \<and> list_all isSpace post"
    unfolding r by (rule trimmed_between_spaces)
  have ends: "result = [] \<or> (\<not> isSpace (hd result) \<and> \<not> isSpace (last result))"
    unfolding r by (rule trimmed_ends)
  have iff: "error t' = ?msg \<longleftrightarrow> result = []"
    using e ne by (cases "result = []") auto
  have clear: "result \<noteq> [] \<longrightarrow> error t' = []"
    using e by simp
  have blank: "list_all isSpace (engineText lib (pixs wd1 a)) \<longrightarrow> result = [] \<and> error t' = ?msg"
    using r e by (simp add: trimmed_blank)
  from r between ends iff clear blank show ?thesis by blast
qed

theorem recognize_trims_and_reports_witness:
  "engine_m readySession = Some \<lparr>eimage = None\<rparr> \<and> \<not> isNull (Pixmap sampleImage)
   \<and> fst (prepareImage hiLib 1000000000 (toImage (Pixmap sampleImage)) emptyWorld) = Some 2
   \<and> fst (recognize hiLib 1000000000 (Pixmap sampleImage) (readySession, emptyWorld))
       = qs ''Hi there''
   \<and> error (fst (snd (recognize hiLib 1000000000 (Pixmap sampleImage)
                          (readySession, emptyWorld)))) = []
   \<and> fst (recognize sampleLib 1000000000 (Pixmap sampleImage) (readySession, emptyWorld)) = []
   \<and> error (fst (snd (recognize sampleLib 1000000000 (Pixmap sampleImage)
                          (readySession, emptyWorld))))
       = tr ''Failed to recognize text or no text selected''"
proof -
  let ?h = "recognize hiLib 1000000000 (Pixmap sampleImage) (readySession, emptyWorld)"
  let ?r = "recognize sampleLib 1000000000 (Pixmap sampleImage) (readySession, emptyWorld)"
  let ?wd1 = "\<lparr>pixs = [2 \<mapsto> samplePix\<lparr>d := 8, w := 5000, h := 4000\<rparr>], fresh = 3,
       trace = [EvReadMemBmp, EvConvertRGBToGray 0, EvDestroy 0, EvScale 1 5 5, EvDestroy 1]\<rparr>"
  have e: "engine_m readySession = Some \<lparr>eimage = None\<rparr>"
    by (simp add: readySession_def)
  have n: "\<not> isNull (Pixmap sampleImage)" by simp
  have p: "prepareImage sampleLib 1000000000 (toImage (Pixmap sampleImage)) emptyWorld
      = (Some 2, ?wd1)"
    using sample_prepareImage by simp
  have ph: "prepareImage hiLib 1000000000 (toImage (Pixmap sampleImage)) emptyWorld
      = (Some 2, ?wd1)"
    unfolding hiLib_def prepareImage_engineText by (rule p)
  have r: "?r = (fst ?r, fst (snd ?r), snd (snd ?r))" by simp
  have h: "?h = (fst ?h, fst (snd ?h), snd (snd ?h))" by simp
  have b: "list_all isSpace (engineText sampleLib x)" for x
    by (simp add: sampleLib_def isSpace_def)
  have ht: "trimmed (engineText hiLib x) = qs ''Hi there''" for x
    by (simp add: hiLib_def hi_text)
  have q: "qs ''Hi there'' \<noteq> []" by (simp add: qs_def)
  from recognize_trims_and_reports [OF e n p r] b
  have blank: "fst ?r = []
      \<and> error (fst (snd ?r)) = tr ''Failed to recognize text or no text selected''"
    by blast
  from recognize_trims_and_reports [OF e n ph h]
  have "fst ?h = trimmed (engineText hiLib (pixs ?wd1 2))"
    and "fst ?h \<noteq> [] \<longrightarrow> error (fst (snd ?h)) = []"
    by blast+
  with ht q have hi: "fst ?h = qs ''Hi there'' \<and> error (fst (snd ?h)) = []"
    by simp
  from e n ph blank hi show ?thesis by simp
qed

end
